theory Spec2Isabelle
  imports Complex_Main "HOL-Library.Sublist" "HOL-Library.Signed_Division"
begin

section \<open>Go runtime: integers, indexing, formatting\<close>

text \<open>
  A Go string is a sequence of bytes, so it is a \<^typ>\<open>string\<close> here (a list of 8-bit
  characters); text outside ASCII is written as its UTF-8 bytes.  A run-time panic is a
  value: every function that can panic returns \<open>runtime_panic + 'a\<close>.
\<close>

datatype runtime_panic = IntegerDivideByZero | IndexOutOfRange | Panic string

definition nl :: string where
  \<open>nl = [CHR 0x0A]\<close>

text \<open>The Go type \<open>int\<close> is 64 bits wide and signed; \<open>+\<close> wraps around.\<close>

definition wrap64 :: \<open>int \<Rightarrow> int\<close> where
  \<open>wrap64 k = (k + 2 ^ 63) mod 2 ^ 64 - 2 ^ 63\<close>

definition go_add :: \<open>int \<Rightarrow> int \<Rightarrow> int\<close> where
  \<open>go_add x y = wrap64 (x + y)\<close>

text \<open>\<open>x % y\<close>: the remainder of the division truncated towards zero; panics when \<open>y = 0\<close>.\<close>

definition go_rem :: \<open>int \<Rightarrow> int \<Rightarrow> runtime_panic + int\<close> where
  \<open>go_rem x y = (if y = 0 then Inl IntegerDivideByZero else Inr (x smod y))\<close>

text \<open>\<open>len(xs)\<close> and \<open>xs[i]\<close> on a slice; the index expression panics out of range.\<close>

definition len :: \<open>'a list \<Rightarrow> int\<close> where
  \<open>len xs = int (length xs)\<close>

definition go_index :: \<open>'a list \<Rightarrow> int \<Rightarrow> runtime_panic + 'a\<close> where
  \<open>go_index xs i = (if 0 \<le> i \<and> i < len xs then Inr (xs ! nat i) else Inl IndexOutOfRange)\<close>

text \<open>The verb \<open>%d\<close> of \<open>fmt.Sprintf\<close>: decimal digits, with a minus sign below zero.\<close>

fun nat_digits :: \<open>nat \<Rightarrow> string\<close> where
  \<open>nat_digits n =
     (if n < 10 then [char_of (48 + n)]
      else nat_digits (n div 10) @ [char_of (48 + n mod 10)])\<close>

declare nat_digits.simps [simp del]

definition fmt_d :: \<open>int \<Rightarrow> string\<close> where
  \<open>fmt_d k = (if k < 0 then CHR ''-'' # nat_digits (nat (- k)) else nat_digits (nat k))\<close>

section \<open>models.go\<close>

record Flashcard =
  ID :: int
  English :: string
  Chinese :: string
  Pinyin :: string

record Message =
  Role :: string
  Content :: string

record ResponseFormat =
  Type :: string
  JSONSchema :: string

text \<open>
  The pointer fields are options (\<open>nil\<close> is \<open>None\<close>).  The program never sets
  \<open>MaxCompletionTokens\<close> and \<open>Temperature\<close>.
\<close>

record ChatCompletionsParams =
  Messages :: \<open>Message list\<close>
  ParamsModel :: string
  MaxCompletionTokens :: \<open>int option\<close>
  Temperature :: \<open>real option\<close>
  ParamsResponseFormat :: \<open>ResponseFormat option\<close>

text \<open>An element of \<open>Choices\<close> is an anonymous struct with the one field \<open>Message\<close>.\<close>

record Choice =
  ChoiceMessage :: Message

record ChatCompletionsResult =
  Choices :: \<open>Choice list\<close>

section \<open>Errors\<close>

text \<open>
  Every Go \<open>error\<close> the program can return, printed or not.  The two errors the program
  makes itself (\<open>fmt.Errorf\<close> and \<open>errors.New\<close> in \<open>Translate\<close>) have a constructor
  each; an error handed on from a library call carries the library's message and is
  tagged with the call it comes from.
\<close>

datatype error =
    MarshalError string
  | TransportError string
  | ParseError string
  | EmptyResponse string
  | MissingFields
  | FileError string
  | DecodeError string

text \<open>\<open>err.Error()\<close>\<close>

fun error_string :: \<open>error \<Rightarrow> string\<close> where
  \<open>error_string (MarshalError m) = m\<close>
| \<open>error_string (TransportError m) = m\<close>
| \<open>error_string (ParseError m) = m\<close>
| \<open>error_string (EmptyResponse b) = ''no response from OpenAI API: '' @ b\<close>
| \<open>error_string MissingFields = ''no translation found''\<close>
| \<open>error_string (FileError m) = m\<close>
| \<open>error_string (DecodeError m) = m\<close>

section \<open>The libraries and the operating system\<close>

text \<open>
  The program calls \<open>encoding/json\<close>, \<open>net/http\<close>, \<open>io\<close> and \<open>os\<close>.  What
  these calls return is a parameter of the model: an \<open>Env\<close> holds one function for each
  call that can fail, returning the library's error message (\<open>Inl\<close>) or the result.

  \<^item> \<open>json_Decode\<close> is \<open>Decoder.Decode\<close> into a card.  The decoder is the bytes of the
    file that it has not read yet; the call gives the decoded card or the message of the
    decode error, and the bytes left unread.
  \<^item> \<open>http_Do\<close> gives the transport error or the response; \<open>io_ReadAll\<close> the read error
    or the bytes of the response body.
  \<^item> \<open>open_fault\<close> is the error of opening a path that the file system refuses to open
    (other than for its absence); \<open>write_fault\<close> the number of bytes written before a
    failing write, and its error.
\<close>

record Request =
  Method :: string
  URL :: string
  Header :: \<open>string \<rightharpoonup> string\<close>
  Body :: string

text \<open>The response: the program reads its body and never looks at its status.\<close>

record Response =
  StatusCode :: int
  ResponseBody :: string

record Env =
  json_Marshal_params :: \<open>ChatCompletionsParams \<Rightarrow> string + string\<close>
  http_NewRequest :: \<open>string \<Rightarrow> string \<Rightarrow> string \<Rightarrow> string + Request\<close>
  http_Do :: \<open>Request \<Rightarrow> string + Response\<close>
  io_ReadAll :: \<open>string \<Rightarrow> string + string\<close>
  json_Unmarshal_result :: \<open>string \<Rightarrow> string + ChatCompletionsResult\<close>
  json_Unmarshal_translation :: \<open>string \<Rightarrow> string + string \<times> string\<close>
  json_Marshal_card :: \<open>Flashcard \<Rightarrow> string + string\<close>
  json_Decode :: \<open>string \<Rightarrow> (string + Flashcard) \<times> string\<close>
  open_fault :: \<open>string \<Rightarrow> string option\<close>
  write_fault :: \<open>string \<Rightarrow> (nat \<times> string) option\<close>

text \<open>The world outside the process: the files by path, and what was printed.\<close>

record World =
  Files :: \<open>string \<rightharpoonup> string\<close>
  Stdout :: string

text \<open>\<open>fmt.Println(label, err)\<close>: the operands separated by a space, then a newline.\<close>

definition Println :: \<open>World \<Rightarrow> string \<Rightarrow> string \<Rightarrow> World\<close> where
  \<open>Println w label msg = w\<lparr>Stdout := Stdout w @ label @ '' '' @ msg @ nl\<rparr>\<close>


text \<open>\<open>os.OpenFile(name, O_APPEND|O_CREATE|O_WRONLY, 0644)\<close>: an absent file is created empty.\<close>

definition os_OpenFile :: \<open>Env \<Rightarrow> World \<Rightarrow> string \<Rightarrow> string + World\<close> where
  \<open>os_OpenFile env w name =
     (case open_fault env name of
        Some e \<Rightarrow> Inl e
      | None \<Rightarrow>
          (case Files w name of
             None \<Rightarrow> Inr (w\<lparr>Files := (Files w)(name \<mapsto> [])\<rparr>)
           | Some bytes \<Rightarrow> Inr w))\<close>

definition file_bytes :: \<open>World \<Rightarrow> string \<Rightarrow> string\<close> where
  \<open>file_bytes w name = (case Files w name of None \<Rightarrow> [] | Some bytes \<Rightarrow> bytes)\<close>

text \<open>
  \<open>file.Write(b)\<close> on a file opened with \<open>O_APPEND\<close>: the bytes go to the end of the
  file.  A failing write has written fewer bytes than it was given.
\<close>

definition file_Write :: \<open>Env \<Rightarrow> World \<Rightarrow> string \<Rightarrow> string \<Rightarrow> World \<times> string option\<close> where
  \<open>file_Write env w name b =
     (case write_fault env name of
        None \<Rightarrow> (w\<lparr>Files := (Files w)(name \<mapsto> file_bytes w name @ b)\<rparr>, None)
      | Some (n, e) \<Rightarrow>
          (w\<lparr>Files := (Files w)(name \<mapsto> file_bytes w name @ take (min n (length b - 1)) b)\<rparr>,
           Some e))\<close>

text \<open>
  \<open>Decoder.More\<close>, as \<open>encoding/json\<close> defines it: it looks at the next byte that is not
  white space, and is true unless the input has ended or that byte is \<open>]\<close> or \<open>}\<close>.
\<close>

definition isSpace :: \<open>char \<Rightarrow> bool\<close> where
  \<open>isSpace c = (c = CHR '' '' \<or> c = CHR 0x09 \<or> c = CHR 0x0D \<or> c = CHR 0x0A)\<close>



section \<open>ai.go\<close>

record AI =
  APIKey :: string
  Model :: string

definition NewAI :: \<open>string \<Rightarrow> string \<Rightarrow> runtime_panic + AI\<close> where
  \<open>NewAI apiKey model =
     (if apiKey = [] \<or> model = [] then Inl (Panic ''OpenAI API key and model must be provided'')
      else Inr \<lparr>APIKey = apiKey, Model = model\<rparr>)\<close>

definition schema :: string where
  \<open>schema =
     ''{'' @ nl
   @ ''      "name": "translation",'' @ nl
   @ ''      "strict": true,'' @ nl
   @ ''      "schema": {'' @ nl
   @ ''        "type": "object",'' @ nl
   @ ''        "properties": {'' @ nl
   @ ''          "zh": {'' @ nl
   @ ''            "type": "string"'' @ nl
   @ ''          },'' @ nl
   @ ''          "pinyin": {'' @ nl
   @ ''            "type": "string"'' @ nl
   @ ''          }'' @ nl
   @ ''        },'' @ nl
   @ ''        "required": ['' @ nl
   @ ''          "zh",'' @ nl
   @ ''          "pinyin"'' @ nl
   @ ''        ],'' @ nl
   @ ''        "additionalProperties": false'' @ nl
   @ ''      }'' @ nl
   @ ''    }''\<close>

definition typicalResponse :: string where
  \<open>typicalResponse =
     ''{'' @ nl
   @ ''      "zh": "'' @ [CHR 0xE6, CHR 0x88, CHR 0x91, CHR 0xE4, CHR 0xB8, CHR 0x8B,
       CHR 0xE5, CHR 0x91, CHR 0xA8, CHR 0xE5, CHR 0x8F, CHR 0xAF, CHR 0xE8, CHR 0x83,
       CHR 0xBD, CHR 0xE6, CHR 0x9C, CHR 0x89, CHR 0xE6, CHR 0x97, CHR 0xB6, CHR 0xE9,
       CHR 0x97, CHR 0xB4, CHR 0xEF, CHR 0xBC, CHR 0x8C, CHR 0xE5, CHR 0x8F, CHR 0xAF,
       CHR 0xE4, CHR 0xBB, CHR 0xA5, CHR 0xE5, CHR 0x90, CHR 0x97, CHR 0xEF, CHR 0xBC,
       CHR 0x9F] @ ''",'' @ nl
   @ ''      "pinyin": "W'' @ [CHR 0xC7, CHR 0x92] @ '' xi'' @ [CHR 0xC3, CHR 0xA0]
       @ '' zh'' @ [CHR 0xC5, CHR 0x8D] @ ''u k'' @ [CHR 0xC4, CHR 0x9B] @ ''n''
       @ [CHR 0xC3, CHR 0xA9] @ ''ng y'' @ [CHR 0xC7, CHR 0x92] @ ''u sh'' @ [CHR 0xC3,
       CHR 0xAD] @ ''ji'' @ [CHR 0xC4, CHR 0x81] @ ''n, k'' @ [CHR 0xC4, CHR 0x9B] @ ''y''
       @ [CHR 0xC7, CHR 0x90] @ '' ma?"'' @ nl
   @ ''    }''\<close>

text \<open>The parameters of the request: the struct literal \<open>params\<close> of \<open>Translate\<close>.\<close>

definition Translate_params :: \<open>AI \<Rightarrow> string \<Rightarrow> ChatCompletionsParams\<close> where
  \<open>Translate_params ai sentence = \<lparr>
      Messages = [
        \<lparr>Role = ''system'',
         Content = ''Translate the provided English sentence into Chinese, including pinyin and Chinese characters.''\<rparr>,
        \<lparr>Role = ''user'',
         Content = ''I'' @ [CHR 0x27] @ ''ll probably have time next week. Is that okay?''\<rparr>,
        \<lparr>Role = ''assistant'', Content = typicalResponse\<rparr>,
        \<lparr>Role = ''user'', Content = sentence\<rparr>],
      ParamsModel = Model ai,
      MaxCompletionTokens = None,
      Temperature = None,
      ParamsResponseFormat = Some \<lparr>Type = ''json_schema'', JSONSchema = schema\<rparr>\<rparr>\<close>

text \<open>
  \<open>Translate\<close> returns the Chinese translation and the Pinyin of the sentence, or an
  error.  The anonymous struct \<open>translation\<close> is the pair of its fields \<open>ZH\<close> and
  \<open>Pinyin\<close>.
\<close>

definition Translate :: \<open>Env \<Rightarrow> AI \<Rightarrow> string \<Rightarrow> error + string \<times> string\<close> where
  \<open>Translate env ai sentence =
     (let params = Translate_params ai sentence
      in
      case json_Marshal_params env params of
        Inl err \<Rightarrow> Inl (MarshalError err)
      | Inr body \<Rightarrow>
      (case http_NewRequest env ''POST'' ''https://api.openai.com/v1/chat/completions'' body of
        Inl err \<Rightarrow> Inl (TransportError err)
      | Inr req \<Rightarrow>
      (let req = req\<lparr>Header := (Header req)(''Authorization'' \<mapsto> ''Bearer '' @ APIKey ai)\<rparr>;
           req = req\<lparr>Header := (Header req)(''Content-Type'' \<mapsto> ''application/json'')\<rparr>
       in
       case http_Do env req of
        Inl err \<Rightarrow> Inl (TransportError err)
      | Inr resp \<Rightarrow>
      (case io_ReadAll env (ResponseBody resp) of
        Inl err \<Rightarrow> Inl (TransportError err)
      | Inr b \<Rightarrow>
      (case json_Unmarshal_result env b of
        Inl err \<Rightarrow> Inl (ParseError err)
      | Inr result \<Rightarrow>
          if length (Choices result) = 0 then Inl (EmptyResponse b)
          else
            (case json_Unmarshal_translation env (Content (ChoiceMessage (Choices result ! 0))) of
               Inl err \<Rightarrow> Inl (ParseError err)
             | Inr (zh, pinyin) \<Rightarrow>
                 if zh = [] \<or> pinyin = [] then Inl MissingFields
                 else Inr (zh, pinyin)))))))\<close>

section \<open>app.go\<close>

text \<open>
  The state of the application once \<open>SetupUI\<close> has made the widgets.  Of the terminal
  library it keeps what the program reads or sets: the widget that has the focus
  (\<open>Application.GetFocus\<close>, set by \<open>SetRoot\<close>: the card view, or the form, its input
  field or one of its buttons), the text of \<open>CardView\<close>, and whether \<open>Application.Stop\<close>
  was called.
\<close>

datatype focus = FocusCardView | FocusForm | FocusInputField | FocusButton

record App =
  AI :: AI
  Deck :: \<open>Flashcard list\<close>
  CurrentCardIdx :: int
  Revealed :: bool
  FlashcardsFile :: string
  Focus :: focus
  CardViewText :: string
  Stopped :: bool

text \<open>The two states of the controller: \<open>Browsing\<close> shows the card, \<open>Editing\<close> the form.\<close>

definition Browsing :: \<open>App \<Rightarrow> bool\<close> where
  \<open>Browsing a = (Focus a = FocusCardView)\<close>



text \<open>\<open>UpdateCardView\<close> updates the display of the current card.\<close>

definition UpdateCardView :: \<open>App \<Rightarrow> runtime_panic + App\<close> where
  \<open>UpdateCardView a =
     (if len (Deck a) = 0 then Inr (a\<lparr>CardViewText := ''No cards in deck!''\<rparr>)
      else
        (case go_index (Deck a) (CurrentCardIdx a) of
           Inl p \<Rightarrow> Inl p
         | Inr card' \<Rightarrow>
             (let content = nl @ nl @ nl;
                  content = content @ ''Card '' @ fmt_d (go_add (CurrentCardIdx a) 1) @ ''/''
                      @ fmt_d (len (Deck a)) @ '' (ID: '' @ fmt_d (ID card') @ '')'' @ nl @ nl;
                  content = content @ ''[::b]English:[::-]'' @ nl;
                  content = content @ ''[cyan]'' @ English card' @ ''[white]'' @ nl @ nl;
                  content =
                    (if Revealed a then
                       content @ ''[::b]Chinese:[::-]'' @ nl
                         @ ''[yellow]'' @ Chinese card' @ ''[white]'' @ nl @ nl
                         @ ''[::b]Pinyin:[::-]'' @ nl
                         @ ''[green]'' @ Pinyin card' @ ''[white]'' @ nl
                     else content);
                  content = content @ nl @ concat (replicate 25 [CHR 0xE2, CHR 0x94, CHR 0x80]) @ nl;
                  content = content @ nl @ ''Controls:'' @ nl;
                  content = content @ [CHR 0xE2, CHR 0x86, CHR 0x92]
                      @ '': Reveal/Next Card  |  n: New Card  |  q: Quit''
              in Inr (a\<lparr>CardViewText := content\<rparr>))))\<close>

text \<open>
  \<open>ShowNewCardDialog\<close> makes the form and sets it as the root with focus, which the
  form hands to its first item, the input field.
\<close>

definition ShowNewCardDialog :: \<open>App \<Rightarrow> App\<close> where
  \<open>ShowNewCardDialog a = a\<lparr>Focus := FocusInputField\<rparr>\<close>

text \<open>
  \<open>HandleInput\<close> processes keyboard input.  A key event is the right arrow, a rune (its
  code point) or any other key.
\<close>

datatype EventKey = KeyRight | KeyRune nat | KeyOther

definition HandleInput :: \<open>App \<Rightarrow> EventKey \<Rightarrow> runtime_panic + App\<close> where
  \<open>HandleInput a event =
     (if Focus a = FocusForm then Inr a
      else if Focus a = FocusInputField then Inr a
      else
        (case event of
           KeyRight \<Rightarrow>
             (if \<not> Revealed a then UpdateCardView (a\<lparr>Revealed := True\<rparr>)
              else
                (let a = a\<lparr>Revealed := False\<rparr> in
                 case go_rem (go_add (CurrentCardIdx a) 1) (len (Deck a)) of
                   Inl p \<Rightarrow> Inl p
                 | Inr i \<Rightarrow> UpdateCardView (a\<lparr>CurrentCardIdx := i\<rparr>)))
         | KeyRune r \<Rightarrow>
             (if r = of_char CHR ''q'' then Inr (a\<lparr>Stopped := True\<rparr>)
              else if r = of_char CHR ''n'' then Inr (ShowNewCardDialog a)
              else Inr a)
         | KeyOther \<Rightarrow> Inr a))\<close>

text \<open>
  \<open>SaveNewCard\<close> appends the new card to the deck and writes it to the file.  Each error
  branch stops the application, prints and returns.  On success \<open>SetRoot\<close> gives the focus
  back to the card view, which is rendered again.  The world is returned beside the
  outcome: what was written stays written if the rendering panics.
\<close>

definition SaveNewCard :: \<open>Env \<Rightarrow> World \<Rightarrow> App \<Rightarrow> string \<Rightarrow> (runtime_panic + App) \<times> World\<close> where
  \<open>SaveNewCard env w a englishText =
     (case Translate env (AI a) englishText of
        Inl err \<Rightarrow>
          (Inr (a\<lparr>Stopped := True\<rparr>), Println w ''Error translating text:'' (error_string err))
      | Inr (zh, pinyin) \<Rightarrow>
          (let newCard = \<lparr>ID = go_add (len (Deck a)) 1, English = englishText,
                          Chinese = zh, Pinyin = pinyin\<rparr>;
               a = a\<lparr>Deck := Deck a @ [newCard]\<rparr>
           in
           case os_OpenFile env w (FlashcardsFile a) of
             Inl err \<Rightarrow>
               (Inr (a\<lparr>Stopped := True\<rparr>), Println w ''Error opening flashcards file:'' err)
           | Inr w \<Rightarrow>
               (case json_Marshal_card env newCard of
                  Inl err \<Rightarrow>
                    (Inr (a\<lparr>Stopped := True\<rparr>), Println w ''Error marshaling new card:'' err)
                | Inr cardJSON \<Rightarrow>
                    (case file_Write env w (FlashcardsFile a) (cardJSON @ nl) of
                       (w, Some err) \<Rightarrow>
                         (Inr (a\<lparr>Stopped := True\<rparr>),
                          Println w ''Error writing new card to file:'' err)
                     | (w, None) \<Rightarrow> (UpdateCardView (a\<lparr>Focus := FocusCardView\<rparr>), w)))))\<close>

section \<open>Sessions: key presses, fixtures\<close>

text \<open>Pressing the right arrow \<open>n\<close> times; a panic ends the run.\<close>

fun press_right :: "nat \<Rightarrow> App \<Rightarrow> runtime_panic + App" where
  "press_right 0 a = Inr a"
| "press_right (Suc n) a =
     (case HandleInput a KeyRight of Inl p \<Rightarrow> Inl p | Inr a' \<Rightarrow> press_right n a')"

text \<open>
  \<open>session_step k a a'\<close>: from \<open>a\<close> to \<open>a'\<close> the index has moved \<open>k\<close> cards forward,
  modulo the length of the deck, and the deck, the focus and the reveal flag are the same.
\<close>

definition session_step :: "int \<Rightarrow> App \<Rightarrow> App \<Rightarrow> bool" where
  "session_step k a a' = (Deck a' = Deck a \<and> Focus a' = Focus a \<and> Revealed a' = Revealed a
     \<and> CurrentCardIdx a' = (CurrentCardIdx a + k) mod len (Deck a))"

text \<open>A session on a deck of two cards, for the concrete instances below.\<close>

definition two_cards :: \<open>Flashcard list\<close> where
  \<open>two_cards =
     [\<lparr>ID = 1, English = ''Hello'', Chinese = ''ni hao'', Pinyin = ''Ni3 hao3''\<rparr>,
      \<lparr>ID = 2, English = ''Thanks'', Chinese = ''xie xie'', Pinyin = ''Xie4 xie''\<rparr>]\<close>

definition stub_app :: \<open>Flashcard list \<Rightarrow> App\<close> where
  \<open>stub_app deck =
     \<lparr>AI = \<lparr>APIKey = ''key'', Model = ''gpt-4o-mini''\<rparr>, Deck = deck, CurrentCardIdx = 0,
      Revealed = False, FlashcardsFile = ''flashcards.jsonl'', Focus = FocusCardView,
      CardViewText = [], Stopped = False\<rparr>\<close>

section \<open>Views of \<open>Translate\<close> and of the record file\<close>

text \<open>
  The first half of \<open>Translate\<close>, up to \<open>io.ReadAll\<close>: the bytes of the reply, or
  the error returned before any parsing.  The lemma \<open>Translate_after_reply\<close> below shows
  that \<open>Translate\<close> is this followed by the parsing.
\<close>

definition service_reply :: \<open>Env \<Rightarrow> AI \<Rightarrow> string \<Rightarrow> error + string\<close> where
  \<open>service_reply env ai sentence =
     (case json_Marshal_params env (Translate_params ai sentence) of
        Inl err \<Rightarrow> Inl (MarshalError err)
      | Inr body \<Rightarrow>
      (case http_NewRequest env ''POST'' ''https://api.openai.com/v1/chat/completions'' body of
        Inl err \<Rightarrow> Inl (TransportError err)
      | Inr req \<Rightarrow>
      (case http_Do env (req\<lparr>Header := (Header req)(''Authorization'' \<mapsto> ''Bearer '' @ APIKey ai,
                                                ''Content-Type'' \<mapsto> ''application/json'')\<rparr>) of
        Inl err \<Rightarrow> Inl (TransportError err)
      | Inr resp \<Rightarrow>
      (case io_ReadAll env (ResponseBody resp) of
        Inl err \<Rightarrow> Inl (TransportError err)
      | Inr b \<Rightarrow> Inr b))))\<close>

definition first_content :: \<open>ChatCompletionsResult \<Rightarrow> string\<close> where
  \<open>first_content result = Content (ChoiceMessage (Choices result ! 0))\<close>

text \<open>
  The lines of a file: the byte sequences that a newline terminates, in order.  Bytes
  after the last newline are an incomplete line, \<open>incomplete_line\<close>, and not counted.
\<close>

fun lines_from :: \<open>string \<Rightarrow> string \<Rightarrow> string list\<close> where
  \<open>lines_from cur [] = []\<close>
| \<open>lines_from cur (c # cs) =
     (if c = CHR 0x0A then cur # lines_from [] cs else lines_from (cur @ [c]) cs)\<close>

fun rest_from :: \<open>string \<Rightarrow> string \<Rightarrow> string\<close> where
  \<open>rest_from cur [] = cur\<close>
| \<open>rest_from cur (c # cs) = (if c = CHR 0x0A then rest_from [] cs else rest_from (cur @ [c]) cs)\<close>

definition file_lines :: \<open>string \<Rightarrow> string list\<close> where
  \<open>file_lines bytes = lines_from [] bytes\<close>

definition incomplete_line :: \<open>string \<Rightarrow> string\<close> where
  \<open>incomplete_line bytes = rest_from [] bytes\<close>


text \<open>The new card of \<open>SaveNewCard\<close>.\<close>

definition new_card :: \<open>App \<Rightarrow> string \<Rightarrow> string \<Rightarrow> string \<Rightarrow> Flashcard\<close> where
  \<open>new_card a englishText zh pinyin =
     \<lparr>ID = go_add (len (Deck a)) 1, English = englishText, Chinese = zh, Pinyin = pinyin\<rparr>\<close>

text \<open>The UTF-8 bytes of the translation and of the Pinyin of ``Hello''.\<close>

definition ni_hao :: string where
  \<open>ni_hao = [CHR 0xE4, CHR 0xBD, CHR 0xA0, CHR 0xE5, CHR 0xA5, CHR 0xBD]\<close>

definition ni_hao_pinyin :: string where
  \<open>ni_hao_pinyin = ''N'' @ [CHR 0xC7, CHR 0x90] @ '' h'' @ [CHR 0xC7, CHR 0x8E] @ ''o''\<close>

text \<open>
  A stub environment: the service answers with \<open>result\<close>, whose first message
  decodes to \<open>translation\<close>; cards are written in the format of the record file (for
  strings that need no escaping) and read back by \<open>stub_Decode\<close>; the operating system
  reports no fault.
\<close>

definition stub_Marshal_card :: \<open>Flashcard \<Rightarrow> string + string\<close> where
  \<open>stub_Marshal_card c =
     Inr (''{"id":'' @ fmt_d (ID c) @ '',"en":"'' @ English c @ ''","zh":"'' @ Chinese c
          @ ''","pinyin":"'' @ Pinyin c @ ''"}'')\<close>

definition card_line :: \<open>Flashcard \<Rightarrow> string\<close> where
  \<open>card_line c = projr (stub_Marshal_card c)\<close>

text \<open>
  The stub decoder reads a value to the end of its line, and knows the lines of the two
  cards of \<open>two_cards\<close>; any other line is an error.
\<close>

definition stub_Decode :: \<open>string \<Rightarrow> (string + Flashcard) \<times> string\<close> where
  \<open>stub_Decode decoder =
     (let line = takeWhile (\<lambda>c. c \<noteq> CHR 0x0A) (dropWhile isSpace decoder);
          decoder' = dropWhile (\<lambda>c. c \<noteq> CHR 0x0A) (dropWhile isSpace decoder)
      in (if line = card_line (two_cards ! 0) then Inr (two_cards ! 0)
          else if line = card_line (two_cards ! 1) then Inr (two_cards ! 1)
          else Inl ''invalid character'',
          decoder'))\<close>

definition stub_env :: \<open>string + ChatCompletionsResult \<Rightarrow> string + string \<times> string \<Rightarrow> Env\<close> where
  \<open>stub_env result translation =
     \<lparr>json_Marshal_params = (\<lambda>p. Inr ''{}''),
      http_NewRequest = (\<lambda>m u b. Inr \<lparr>Method = m, URL = u, Header = Map.empty, Body = b\<rparr>),
      http_Do = (\<lambda>req. Inr \<lparr>StatusCode = 200, ResponseBody = ''reply''\<rparr>),
      io_ReadAll = Inr,
      json_Unmarshal_result = (\<lambda>b. result),
      json_Unmarshal_translation = (\<lambda>content. translation),
      json_Marshal_card = stub_Marshal_card,
      json_Decode = stub_Decode,
      open_fault = (\<lambda>name. None),
      write_fault = (\<lambda>name. None)\<rparr>\<close>

definition one_choice :: \<open>string + ChatCompletionsResult\<close> where
  \<open>one_choice = Inr \<lparr>Choices = [\<lparr>ChoiceMessage = \<lparr>Role = ''assistant'', Content = ''{}''\<rparr>\<rparr>]\<rparr>\<close>

definition hello_env :: Env where
  \<open>hello_env = stub_env one_choice (Inr (ni_hao, ni_hao_pinyin))\<close>

definition stub_world :: World where
  \<open>stub_world = \<lparr>Files = [''flashcards.jsonl'' \<mapsto> ''{"id":1}'' @ nl @ ''{"id":2}'' @ nl], Stdout = []\<rparr>\<close>

text \<open>The JSON text of the third card, ``Hello'', as the stub encoder writes it.\<close>

definition hello_json :: string where
  \<open>hello_json = ''{"id":3,"en":"Hello","zh":"'' @ ni_hao @ ''","pinyin":"'' @ ni_hao_pinyin @ ''"}''\<close>








text \<open>Environments in which the append fails: at the open, at the encoding, at the write.\<close>

definition open_fails_env :: Env where
  \<open>open_fails_env = hello_env\<lparr>open_fault := (\<lambda>name. Some ''permission denied'')\<rparr>\<close>

definition marshal_fails_env :: Env where
  \<open>marshal_fails_env = hello_env\<lparr>json_Marshal_card := (\<lambda>c. Inl ''unsupported value'')\<rparr>\<close>

definition write_fails_env :: Env where
  \<open>write_fails_env = hello_env\<lparr>write_fault := (\<lambda>name. Some (5, ''no space left on device''))\<rparr>\<close>

definition hello_card :: Flashcard where
  \<open>hello_card = \<lparr>ID = 3, English = ''Hello'', Chinese = ni_hao, Pinyin = ni_hao_pinyin\<rparr>\<close>

section \<open>Properties\<close>

section \<open>Go integers in range\<close>

lemma wrap64_id: "- (2 ^ 63) \<le> k \<Longrightarrow> k < 2 ^ 63 \<Longrightarrow> wrap64 k = k"
  unfolding wrap64_def by (simp add: mod_pos_pos_trivial)

lemma smod_nonneg: "0 \<le> k \<Longrightarrow> 0 < l \<Longrightarrow> k smod l = k mod (l::int)"
  by (simp add: signed_modulo_int_def sgn_if)

lemma go_add_1: "0 \<le> i \<Longrightarrow> i < len xs \<Longrightarrow> length xs < 2 ^ 63 \<Longrightarrow> go_add i 1 = i + 1"
  unfolding go_add_def len_def by (rule wrap64_id) auto

lemma go_rem_pos: "0 \<le> k \<Longrightarrow> 0 < l \<Longrightarrow> go_rem k l = Inr (k mod l)"
  by (simp add: go_rem_def smod_nonneg)

section \<open>The advance transition\<close>

lemma UpdateCardView_valid:
  assumes "0 \<le> CurrentCardIdx a" "CurrentCardIdx a < len (Deck a)"
  shows "\<exists>t. UpdateCardView a = Inr (a\<lparr>CardViewText := t\<rparr>)"
proof -
  from assms have "UpdateCardView a = Inr (a\<lparr>CardViewText := CardViewText (projr (UpdateCardView a))\<rparr>)"
    by (simp add: UpdateCardView_def go_index_def Let_def)
  then show ?thesis by blast
qed

lemma advance_hidden:
  assumes "Browsing a" "\<not> Revealed a" "0 \<le> CurrentCardIdx a" "CurrentCardIdx a < len (Deck a)"
  shows "\<exists>t. HandleInput a KeyRight = Inr (a\<lparr>Revealed := True, CardViewText := t\<rparr>)"
proof -
  from UpdateCardView_valid [of "a\<lparr>Revealed := True\<rparr>"] assms
  obtain t where "UpdateCardView (a\<lparr>Revealed := True\<rparr>) = Inr (a\<lparr>Revealed := True, CardViewText := t\<rparr>)"
    by auto
  with assms show ?thesis
    by (auto simp: HandleInput_def Browsing_def)
qed

lemma advance_revealed:
  assumes "Browsing a" "Revealed a" "0 \<le> CurrentCardIdx a" "CurrentCardIdx a < len (Deck a)"
    "length (Deck a) < 2 ^ 63"
  shows "\<exists>t. HandleInput a KeyRight =
    Inr (a\<lparr>Revealed := False, CurrentCardIdx := (CurrentCardIdx a + 1) mod len (Deck a), CardViewText := t\<rparr>)"
proof -
  let ?i = "(CurrentCardIdx a + 1) mod len (Deck a)"
  have pos: "0 < len (Deck a)" using assms by simp
  have rem: "go_rem (go_add (CurrentCardIdx a) 1) (len (Deck a)) = Inr ?i"
    using assms pos by (simp add: go_add_1 go_rem_pos)
  have "0 \<le> ?i" "?i < len (Deck a)" using pos by simp_all
  with UpdateCardView_valid [of "a\<lparr>Revealed := False, CurrentCardIdx := ?i\<rparr>"]
  obtain t where "UpdateCardView (a\<lparr>Revealed := False, CurrentCardIdx := ?i\<rparr>)
      = Inr (a\<lparr>Revealed := False, CurrentCardIdx := ?i, CardViewText := t\<rparr>)"
    by auto
  with assms rem show ?thesis
    by (auto simp: HandleInput_def Browsing_def Let_def)
qed

lemma press_right_add:
  "press_right (m + n) a = (case press_right m a of Inl p \<Rightarrow> Inl p | Inr a' \<Rightarrow> press_right n a')"
  by (induction m arbitrary: a) (auto split: sum.splits)

lemma press_right_twice:
  assumes "Browsing a" "0 \<le> CurrentCardIdx a" "CurrentCardIdx a < len (Deck a)"
    "length (Deck a) < 2 ^ 63"
  shows "\<exists>a'. press_right 2 a = Inr a' \<and> session_step 1 a a'"
proof (cases "Revealed a")
  case True
  from advance_revealed [OF assms(1) True assms(2-4)] obtain t where
    1: "HandleInput a KeyRight = Inr (a\<lparr>Revealed := False,
       CurrentCardIdx := (CurrentCardIdx a + 1) mod len (Deck a), CardViewText := t\<rparr>)" (is "_ = Inr ?b")
    by blast
  have pos: "0 < len (Deck a)" using assms by simp
  have "\<exists>u. HandleInput ?b KeyRight = Inr (?b\<lparr>Revealed := True, CardViewText := u\<rparr>)"
    by (rule advance_hidden) (use assms pos in \<open>simp_all add: Browsing_def\<close>)
  then obtain u where 2: "HandleInput ?b KeyRight = Inr (?b\<lparr>Revealed := True, CardViewText := u\<rparr>)"
    by blast
  show ?thesis
    using 1 2 True by (simp add: numeral_2_eq_2 session_step_def)
next
  case False
  from advance_hidden [OF assms(1) False assms(2,3)] obtain t where
    1: "HandleInput a KeyRight = Inr (a\<lparr>Revealed := True, CardViewText := t\<rparr>)" (is "_ = Inr ?b")
    by blast
  have "\<exists>u. HandleInput ?b KeyRight = Inr (?b\<lparr>Revealed := False,
      CurrentCardIdx := (CurrentCardIdx ?b + 1) mod len (Deck ?b), CardViewText := u\<rparr>)"
    by (rule advance_revealed) (use assms in \<open>simp_all add: Browsing_def\<close>)
  then obtain u where 2: "HandleInput ?b KeyRight = Inr (?b\<lparr>Revealed := False,
      CurrentCardIdx := (CurrentCardIdx ?b + 1) mod len (Deck ?b), CardViewText := u\<rparr>)"
    by blast
  show ?thesis
    using 1 2 False by (simp add: numeral_2_eq_2 session_step_def)
qed

lemma press_right_even:
  assumes "Browsing a" "0 \<le> CurrentCardIdx a" "CurrentCardIdx a < len (Deck a)"
    "length (Deck a) < 2 ^ 63"
  shows "\<exists>a'. press_right (2 * k) a = Inr a' \<and> session_step (int k) a a'"
proof (induction k)
  case 0
  from assms show ?case by (simp add: session_step_def)
next
  case (Suc k)
  then obtain b where b: "press_right (2 * k) a = Inr b" "session_step (int k) a b"
    by blast
  have pos: "0 < len (Deck a)" using assms by simp
  have "\<exists>a'. press_right 2 b = Inr a' \<and> session_step 1 b a'"
    by (rule press_right_twice) (use assms b pos in \<open>simp_all add: session_step_def Browsing_def\<close>)
  then obtain c where c: "press_right 2 b = Inr c" "session_step 1 b c"
    by blast
  have "press_right (2 * Suc k) a = press_right (2 * k + 2) a" by simp
  also have "\<dots> = Inr c" using b c by (simp only: press_right_add sum.case)
  finally have "press_right (2 * Suc k) a = Inr c" .
  moreover have "session_step (int (Suc k)) a c"
    using b(2) c(2) by (simp add: session_step_def mod_simps algebra_simps)
  ultimately show ?case by blast
qed

text \<open>
  C1.  In \<open>Browsing\<close>, on a non-empty deck of length \<open>N\<close> (a Go slice, so \<open>N < 2 ^ 63\<close>)
  and with a valid index, the right arrow takes reveal = false to reveal = true with the
  same index, and takes reveal = true at index \<open>i\<close> to reveal = false at index
  \<open>(i + 1) mod N\<close>; after \<open>2 * N\<close> presses the index and the reveal flag are what they
  were.
\<close>

theorem advance_cycle:
  assumes "Deck a \<noteq> []" and "length (Deck a) < 2 ^ 63" and "Browsing a"
    and "0 \<le> CurrentCardIdx a" and "CurrentCardIdx a < len (Deck a)"
  shows "(\<not> Revealed a \<longrightarrow>
            (\<exists>a'. HandleInput a KeyRight = Inr a' \<and> Revealed a'
                 \<and> CurrentCardIdx a' = CurrentCardIdx a \<and> Deck a' = Deck a))
       \<and> (Revealed a \<longrightarrow>
            (\<exists>a'. HandleInput a KeyRight = Inr a' \<and> \<not> Revealed a'
                 \<and> CurrentCardIdx a' = (CurrentCardIdx a + 1) mod len (Deck a) \<and> Deck a' = Deck a))
       \<and> (\<exists>a'. press_right (2 * length (Deck a)) a = Inr a'
                 \<and> CurrentCardIdx a' = CurrentCardIdx a \<and> Revealed a' = Revealed a
                 \<and> Deck a' = Deck a \<and> Browsing a')"
proof (intro conjI impI)
  assume "\<not> Revealed a"
  from advance_hidden [OF assms(3) this assms(4,5)]
  show "\<exists>a'. HandleInput a KeyRight = Inr a' \<and> Revealed a'
      \<and> CurrentCardIdx a' = CurrentCardIdx a \<and> Deck a' = Deck a"
    by auto
next
  assume "Revealed a"
  from advance_revealed [OF assms(3) this assms(4,5,2)]
  show "\<exists>a'. HandleInput a KeyRight = Inr a' \<and> \<not> Revealed a'
      \<and> CurrentCardIdx a' = (CurrentCardIdx a + 1) mod len (Deck a) \<and> Deck a' = Deck a"
    by auto
next
  from press_right_even [OF assms(3,4,5,2), of "length (Deck a)"]
  obtain a' where "press_right (2 * length (Deck a)) a = Inr a'"
    "session_step (int (length (Deck a))) a a'" by blast
  with assms show "\<exists>a'. press_right (2 * length (Deck a)) a = Inr a'
      \<and> CurrentCardIdx a' = CurrentCardIdx a \<and> Revealed a' = Revealed a
      \<and> Deck a' = Deck a \<and> Browsing a'"
    by (auto simp: session_step_def len_def Browsing_def)
qed


theorem advance_cycle_witness:
  \<open>Deck (stub_app two_cards) \<noteq> [] \<and> Browsing (stub_app two_cards)
   \<and> (\<exists>a'. HandleInput (stub_app two_cards) KeyRight = Inr a' \<and> Revealed a'
          \<and> CurrentCardIdx a' = 0 \<and> Deck a' = two_cards)
   \<and> (\<exists>a'. HandleInput ((stub_app two_cards)\<lparr>CurrentCardIdx := 1, Revealed := True\<rparr>) KeyRight = Inr a'
          \<and> \<not> Revealed a' \<and> CurrentCardIdx a' = 0 \<and> Deck a' = two_cards)
   \<and> (\<exists>a'. press_right 4 (stub_app two_cards) = Inr a' \<and> CurrentCardIdx a' = 0
          \<and> \<not> Revealed a' \<and> Deck a' = two_cards \<and> Browsing a')\<close>
  using advance_cycle [of \<open>stub_app two_cards\<close>]
    advance_cycle [of \<open>(stub_app two_cards)\<lparr>CurrentCardIdx := 1, Revealed := True\<rparr>\<close>]
  by (simp add: stub_app_def two_cards_def Browsing_def len_def)

section \<open>Rendering\<close>

text \<open>
  C7.  On an empty deck \<open>UpdateCardView\<close> sets the placeholder and returns before the
  index expression: whatever the index is, it does not panic, though indexing the empty
  deck would.
\<close>

theorem empty_deck_placeholder:
  \<open>go_index ([] :: Flashcard list) i = Inl IndexOutOfRange
   \<and> UpdateCardView (a\<lparr>Deck := [], CurrentCardIdx := i\<rparr>)
       = Inr (a\<lparr>Deck := [], CurrentCardIdx := i, CardViewText := ''No cards in deck!''\<rparr>)\<close>
  by (simp add: UpdateCardView_def go_index_def len_def)

text \<open>
  C9.  With an empty deck in \<open>Browsing\<close> and reveal = false, the first right arrow sets
  reveal = true and leaves the deck alone; the second evaluates \<open>(index + 1) % 0\<close> and
  panics with an integer division by zero.  Rendering the same state does not panic: the
  guard for the empty deck is in \<open>UpdateCardView\<close> only.
\<close>

theorem empty_deck_advance_panics:
  assumes \<open>Deck a = []\<close> and \<open>Browsing a\<close> and \<open>\<not> Revealed a\<close>
  shows \<open>HandleInput a KeyRight = Inr (a\<lparr>Revealed := True, CardViewText := ''No cards in deck!''\<rparr>)
       \<and> HandleInput (a\<lparr>Revealed := True, CardViewText := ''No cards in deck!''\<rparr>) KeyRight
           = Inl IntegerDivideByZero
       \<and> go_rem (go_add (CurrentCardIdx a) 1) (len (Deck a)) = Inl IntegerDivideByZero
       \<and> UpdateCardView a = Inr (a\<lparr>CardViewText := ''No cards in deck!''\<rparr>)\<close>
  using assms
  by (simp add: HandleInput_def Browsing_def UpdateCardView_def len_def go_rem_def)

theorem empty_deck_advance_panics_witness:
  \<open>Deck (stub_app []) = [] \<and> Browsing (stub_app []) \<and> \<not> Revealed (stub_app [])
   \<and> press_right 1 (stub_app []) = Inr ((stub_app [])\<lparr>Revealed := True, CardViewText := ''No cards in deck!''\<rparr>)
   \<and> press_right 2 (stub_app []) = Inl IntegerDivideByZero\<close>
  using empty_deck_advance_panics [of \<open>stub_app []\<close>]
  by (simp add: stub_app_def Browsing_def numeral_2_eq_2)

text \<open>Finding a piece of text in the text that was built around it.\<close>

lemma sublist_in_left: \<open>sublist xs ys \<Longrightarrow> sublist xs (ys @ zs)\<close>
  by (metis append.assoc sublist_def)

lemma sublist_in_right: \<open>sublist xs ys \<Longrightarrow> sublist xs (zs @ ys)\<close>
  by (metis append.assoc sublist_def)

lemma sublist_in_Cons: \<open>sublist xs ys \<Longrightarrow> sublist xs (y # ys)\<close>
  by (simp add: sublist_Cons_right)

lemma sublist_here: \<open>sublist (xs @ c # ys) (xs @ c # ys @ zs)\<close>
  by (metis append_Cons append_assoc sublist_append_rightI)

lemmas sublist_step = sublist_append_rightI sublist_here sublist_in_right sublist_in_Cons

text \<open>
  C6.  On a non-empty deck with a valid index, the view holds the source text and the
  position counter \<open>index + 1 / total\<close>.  With reveal = true it holds the target text and
  the pronunciation.  With reveal = false it holds neither: the view is the same whatever
  these two fields of the card are.
\<close>

theorem render_contract:
  assumes \<open>Deck a \<noteq> []\<close> and \<open>0 \<le> CurrentCardIdx a\<close> and \<open>CurrentCardIdx a < len (Deck a)\<close>
    and \<open>length (Deck a) < 2 ^ 63\<close>
  shows \<open>\<exists>a'. UpdateCardView a = Inr a'
     \<and> sublist (English (Deck a ! nat (CurrentCardIdx a))) (CardViewText a')
     \<and> sublist (fmt_d (CurrentCardIdx a + 1) @ ''/'' @ fmt_d (len (Deck a))) (CardViewText a')
     \<and> (Revealed a \<longrightarrow>
           sublist (Chinese (Deck a ! nat (CurrentCardIdx a))) (CardViewText a')
         \<and> sublist (Pinyin (Deck a ! nat (CurrentCardIdx a))) (CardViewText a'))
     \<and> (\<not> Revealed a \<longrightarrow>
           (\<forall>zh py. UpdateCardView
               (a\<lparr>Deck := (Deck a)[nat (CurrentCardIdx a) :=
                    (Deck a ! nat (CurrentCardIdx a))\<lparr>Chinese := zh, Pinyin := py\<rparr>]\<rparr>)
             = Inr (a'\<lparr>Deck := (Deck a)[nat (CurrentCardIdx a) :=
                    (Deck a ! nat (CurrentCardIdx a))\<lparr>Chinese := zh, Pinyin := py\<rparr>]\<rparr>)))\<close>
proof -
  let ?c = \<open>Deck a ! nat (CurrentCardIdx a)\<close>
  have idx: \<open>go_index (Deck a) (CurrentCardIdx a) = Inr ?c\<close>
    using assms by (simp add: go_index_def)
  have add: \<open>go_add (CurrentCardIdx a) 1 = CurrentCardIdx a + 1\<close>
    using assms by (simp add: go_add_1)
  have ne: \<open>len (Deck a) \<noteq> 0\<close> using assms by (simp add: len_def)
  define a' where \<open>a' = projr (UpdateCardView a)\<close>
  have upd: \<open>UpdateCardView a = Inr a'\<close>
    unfolding a'_def UpdateCardView_def Let_def using idx ne by simp
  have E: \<open>sublist (English ?c) (CardViewText a')\<close>
    unfolding a'_def UpdateCardView_def Let_def
    by (simp add: idx ne add del: sublist_Cons_right) (intro conjI impI sublist_step)
  have P: \<open>sublist (fmt_d (CurrentCardIdx a + 1) @ ''/'' @ fmt_d (len (Deck a))) (CardViewText a')\<close>
    unfolding a'_def UpdateCardView_def Let_def
    by (simp add: idx ne add del: sublist_Cons_right) (intro conjI impI sublist_step)
  have R: \<open>sublist (Chinese ?c) (CardViewText a') \<and> sublist (Pinyin ?c) (CardViewText a')\<close>
    if \<open>Revealed a\<close>
    unfolding a'_def UpdateCardView_def Let_def using that
    by (simp add: idx ne add del: sublist_Cons_right) (intro conjI impI sublist_step)
  have H: \<open>UpdateCardView (a\<lparr>Deck := (Deck a)[nat (CurrentCardIdx a) := ?c\<lparr>Chinese := zh, Pinyin := py\<rparr>]\<rparr>)
      = Inr (a'\<lparr>Deck := (Deck a)[nat (CurrentCardIdx a) := ?c\<lparr>Chinese := zh, Pinyin := py\<rparr>]\<rparr>)\<close>
    if \<open>\<not> Revealed a\<close> for zh py
    unfolding a'_def UpdateCardView_def Let_def using that assms
    by (simp add: idx ne add go_index_def len_def)
  from upd E P R H show ?thesis by blast
qed


lemma fmt_d_small: \<open>fmt_d 1 = ''1''\<close> \<open>fmt_d 2 = ''2''\<close>
  by code_simp+

theorem render_contract_witness:
  \<open>(\<exists>a'. UpdateCardView (stub_app two_cards) = Inr a'
        \<and> sublist ''Hello'' (CardViewText a') \<and> sublist ''1/2'' (CardViewText a')
        \<and> (\<forall>zh py. UpdateCardView (stub_app [\<lparr>ID = 1, English = ''Hello'', Chinese = zh, Pinyin = py\<rparr>, two_cards ! 1])
             = Inr (a'\<lparr>Deck := [\<lparr>ID = 1, English = ''Hello'', Chinese = zh, Pinyin = py\<rparr>, two_cards ! 1]\<rparr>)))
   \<and> (\<exists>a'. UpdateCardView ((stub_app two_cards)\<lparr>Revealed := True\<rparr>) = Inr a'
        \<and> sublist ''ni hao'' (CardViewText a') \<and> sublist ''Ni3 hao3'' (CardViewText a'))\<close>
  using render_contract [of \<open>stub_app two_cards\<close>]
    render_contract [of \<open>(stub_app two_cards)\<lparr>Revealed := True\<rparr>\<close>]
  by (simp add: stub_app_def two_cards_def len_def fmt_d_small del: sublist_Cons_right) blast

section \<open>The translation client\<close>

lemma Translate_after_reply:
  \<open>Translate env ai sentence =
     (case service_reply env ai sentence of
        Inl err \<Rightarrow> Inl err
      | Inr b \<Rightarrow>
          (case json_Unmarshal_result env b of
             Inl err \<Rightarrow> Inl (ParseError err)
           | Inr result \<Rightarrow>
               if Choices result = [] then Inl (EmptyResponse b)
               else
                 (case json_Unmarshal_translation env (first_content result) of
                    Inl err \<Rightarrow> Inl (ParseError err)
                  | Inr (zh, pinyin) \<Rightarrow>
                      if zh = [] \<or> pinyin = [] then Inl MissingFields else Inr (zh, pinyin))))\<close>
  unfolding Translate_def service_reply_def Translate_params_def first_content_def Let_def
  by (simp split: sum.splits prod.splits)

lemma service_reply_not_own:
  \<open>service_reply env ai sentence \<noteq> Inl (EmptyResponse x)\<close>
  \<open>service_reply env ai sentence \<noteq> Inl (ParseError y)\<close>
  \<open>service_reply env ai sentence \<noteq> Inl MissingFields\<close>
  unfolding service_reply_def by (simp_all split: sum.splits)

text \<open>
  C3.  \<open>Translate\<close> fails with \<open>EmptyResponse\<close> exactly when the reply parses to zero
  choices; with \<open>ParseError\<close> exactly when parsing the reply fails, or there is a choice
  and parsing the content of the first message fails; with \<open>MissingFields\<close> exactly when
  both parse and one of the two fields is empty; and it returns the two fields exactly when
  both parse and both fields are non-empty.
\<close>

theorem Translate_failures:
  \<open>((\<exists>x. Translate env ai sentence = Inl (EmptyResponse x)) \<longleftrightarrow>
       (\<exists>b result. service_reply env ai sentence = Inr b
           \<and> json_Unmarshal_result env b = Inr result \<and> Choices result = []))
   \<and> ((\<exists>msg. Translate env ai sentence = Inl (ParseError msg)) \<longleftrightarrow>
       (\<exists>b. service_reply env ai sentence = Inr b
           \<and> (isl (json_Unmarshal_result env b)
              \<or> (\<exists>result. json_Unmarshal_result env b = Inr result \<and> Choices result \<noteq> []
                    \<and> isl (json_Unmarshal_translation env (first_content result))))))
   \<and> (Translate env ai sentence = Inl MissingFields \<longleftrightarrow>
       (\<exists>b result zh pinyin. service_reply env ai sentence = Inr b
           \<and> json_Unmarshal_result env b = Inr result \<and> Choices result \<noteq> []
           \<and> json_Unmarshal_translation env (first_content result) = Inr (zh, pinyin)
           \<and> (zh = [] \<or> pinyin = [])))
   \<and> (\<forall>zh pinyin. Translate env ai sentence = Inr (zh, pinyin) \<longleftrightarrow>
       (\<exists>b result. service_reply env ai sentence = Inr b
           \<and> json_Unmarshal_result env b = Inr result \<and> Choices result \<noteq> []
           \<and> json_Unmarshal_translation env (first_content result) = Inr (zh, pinyin)
           \<and> zh \<noteq> [] \<and> pinyin \<noteq> []))\<close>
  unfolding Translate_after_reply
  by (auto split: sum.splits prod.splits simp: service_reply_not_own)

lemma stub_service_reply: \<open>service_reply (stub_env r t) ai s = Inr ''reply''\<close>
  by (simp add: service_reply_def stub_env_def)

theorem Translate_failures_witness:
  \<open>(\<exists>x. Translate (stub_env (Inr \<lparr>Choices = []\<rparr>) (Inl ''unused'')) (AI (stub_app two_cards)) ''Hello'' = Inl (EmptyResponse x))
   \<and> (\<exists>msg. Translate (stub_env (Inl ''unexpected end of JSON input'') (Inl ''unused'')) (AI (stub_app two_cards)) ''Hello''
          = Inl (ParseError msg))
   \<and> (\<exists>msg. Translate (stub_env one_choice (Inl ''invalid character'')) (AI (stub_app two_cards)) ''Hello''
          = Inl (ParseError msg))
   \<and> Translate (stub_env one_choice (Inr (ni_hao, []))) (AI (stub_app two_cards)) ''Hello'' = Inl MissingFields
   \<and> Translate hello_env (AI (stub_app two_cards)) ''Hello'' = Inr (ni_hao, ni_hao_pinyin)\<close>
  using Translate_failures [of \<open>stub_env (Inr \<lparr>Choices = []\<rparr>) (Inl ''unused'')\<close> \<open>AI (stub_app two_cards)\<close> \<open>''Hello''\<close>]
    Translate_failures [of \<open>stub_env (Inl ''unexpected end of JSON input'') (Inl ''unused'')\<close> \<open>AI (stub_app two_cards)\<close> \<open>''Hello''\<close>]
    Translate_failures [of \<open>stub_env one_choice (Inl ''invalid character'')\<close> \<open>AI (stub_app two_cards)\<close> \<open>''Hello''\<close>]
    Translate_failures [of \<open>stub_env one_choice (Inr (ni_hao, []))\<close> \<open>AI (stub_app two_cards)\<close> \<open>''Hello''\<close>]
    Translate_failures [of hello_env \<open>AI (stub_app two_cards)\<close> \<open>''Hello''\<close>]
  by (simp add: stub_service_reply hello_env_def)
     (simp add: stub_env_def one_choice_def ni_hao_def ni_hao_pinyin_def)

section \<open>Submitting a new card\<close>

text \<open>
  C5.  When the reply parses to zero choices, \<open>Translate\<close> fails with \<open>EmptyResponse\<close>
  and \<open>SaveNewCard\<close> stops the application and prints the error: the deck, the index,
  the reveal flag and the files are what they were.
\<close>

theorem zero_choices_no_append:
  assumes \<open>service_reply env (AI a) englishText = Inr b\<close>
    and \<open>json_Unmarshal_result env b = Inr result\<close> and \<open>Choices result = []\<close>
  shows \<open>Translate env (AI a) englishText = Inl (EmptyResponse b)
       \<and> SaveNewCard env w a englishText =
           (Inr (a\<lparr>Stopped := True\<rparr>),
            w\<lparr>Stdout := Stdout w @ ''Error translating text: no response from OpenAI API: '' @ b @ nl\<rparr>)\<close>
proof -
  have t: \<open>Translate env (AI a) englishText = Inl (EmptyResponse b)\<close>
    using assms by (simp add: Translate_after_reply)
  then show ?thesis
    by (simp add: SaveNewCard_def Println_def)
qed

theorem zero_choices_no_append_witness:
  \<open>SaveNewCard (stub_env (Inr \<lparr>Choices = []\<rparr>) (Inl ''unused'')) stub_world (stub_app two_cards) ''Hello''
     = (Inr ((stub_app two_cards)\<lparr>Stopped := True\<rparr>),
        stub_world\<lparr>Stdout := ''Error translating text: no response from OpenAI API: reply'' @ nl\<rparr>)\<close>
  using zero_choices_no_append [of \<open>stub_env (Inr \<lparr>Choices = []\<rparr>) (Inl ''unused'')\<close>
      \<open>stub_app two_cards\<close> \<open>''Hello''\<close> \<open>''reply''\<close> \<open>\<lparr>Choices = []\<rparr>\<close> stub_world]
  by (simp add: stub_service_reply) (simp add: stub_env_def stub_world_def)

lemma SaveNewCard_success:
  assumes \<open>Translate env (AI a) englishText = Inr (zh, pinyin)\<close>
    and \<open>open_fault env (FlashcardsFile a) = None\<close>
    and \<open>json_Marshal_card env (new_card a englishText zh pinyin) = Inr cardJSON\<close>
    and \<open>write_fault env (FlashcardsFile a) = None\<close>
  shows \<open>SaveNewCard env w a englishText =
      (UpdateCardView (a\<lparr>Deck := Deck a @ [new_card a englishText zh pinyin], Focus := FocusCardView\<rparr>),
       w\<lparr>Files := (Files w)(FlashcardsFile a \<mapsto> file_bytes w (FlashcardsFile a) @ cardJSON @ nl)\<rparr>)\<close>
  using assms
  by (auto simp: SaveNewCard_def new_card_def Let_def os_OpenFile_def file_Write_def file_bytes_def
      split: option.splits)

lemma lines_from_append:
  \<open>lines_from cur (xs @ ys) = lines_from cur xs @ lines_from (rest_from cur xs) ys\<close>
  by (induction xs arbitrary: cur) auto

lemma lines_from_one:
  \<open>CHR 0x0A \<notin> set xs \<Longrightarrow> lines_from cur (xs @ nl) = [cur @ xs]\<close>
  by (induction xs arbitrary: cur) (auto simp: nl_def)

lemma file_lines_append_line:
  \<open>CHR 0x0A \<notin> set line \<Longrightarrow>
   file_lines (bytes @ line @ nl) = file_lines bytes @ [incomplete_line bytes @ line]\<close>
proof -
  assume line: \<open>CHR 0x0A \<notin> set line\<close>
  have \<open>lines_from [] (bytes @ (line @ nl))
      = lines_from [] bytes @ lines_from (rest_from [] bytes) (line @ nl)\<close>
    by (rule lines_from_append)
  also have \<open>lines_from (rest_from [] bytes) (line @ nl) = [rest_from [] bytes @ line]\<close>
    using line by (rule lines_from_one)
  finally show ?thesis
    by (simp only: file_lines_def incomplete_line_def)
qed

text \<open>
  C8.  When the card is saved, the file afterwards is the file before, then the JSON text
  of the card, then a newline.  The JSON text has no newline in it (the encoder escapes
  them), so the lines of the file are its lines before, in the same order, and one more:
  the card, after whatever incomplete last line the file had.
\<close>

theorem append_one_line:
  assumes \<open>Translate env (AI a) englishText = Inr (zh, pinyin)\<close>
    and \<open>open_fault env (FlashcardsFile a) = None\<close>
    and \<open>json_Marshal_card env (new_card a englishText zh pinyin) = Inr cardJSON\<close>
    and \<open>write_fault env (FlashcardsFile a) = None\<close>
    and \<open>CHR 0x0A \<notin> set cardJSON\<close>
  shows \<open>Files (snd (SaveNewCard env w a englishText)) =
           (Files w)(FlashcardsFile a \<mapsto> file_bytes w (FlashcardsFile a) @ cardJSON @ nl)
       \<and> file_bytes (snd (SaveNewCard env w a englishText)) (FlashcardsFile a)
           = file_bytes w (FlashcardsFile a) @ cardJSON @ nl
       \<and> file_lines (file_bytes (snd (SaveNewCard env w a englishText)) (FlashcardsFile a))
           = file_lines (file_bytes w (FlashcardsFile a))
             @ [incomplete_line (file_bytes w (FlashcardsFile a)) @ cardJSON]
       \<and> length (file_lines (file_bytes (snd (SaveNewCard env w a englishText)) (FlashcardsFile a)))
           = length (file_lines (file_bytes w (FlashcardsFile a))) + 1\<close>
proof -
  let ?f = \<open>FlashcardsFile a\<close>
  have bytes: \<open>file_bytes (snd (SaveNewCard env w a englishText)) ?f = file_bytes w ?f @ cardJSON @ nl\<close>
    by (simp add: SaveNewCard_success [OF assms(1-4)] file_bytes_def)
  show ?thesis
    by (simp add: bytes file_lines_append_line [OF assms(5)])
       (simp add: SaveNewCard_success [OF assms(1-4)])
qed

lemma hello_Translate: \<open>Translate hello_env ai s = Inr (ni_hao, ni_hao_pinyin)\<close>
  by (simp add: Translate_after_reply hello_env_def stub_service_reply)
     (simp add: stub_env_def one_choice_def ni_hao_def ni_hao_pinyin_def)

lemma fmt_d_3: \<open>fmt_d 3 = ''3''\<close>
  by code_simp

lemma hello_Marshal:
  \<open>json_Marshal_card hello_env (new_card (stub_app two_cards) ''Hello'' ni_hao ni_hao_pinyin) = Inr hello_json\<close>
  by (simp add: hello_env_def stub_env_def stub_Marshal_card_def new_card_def stub_app_def
      two_cards_def len_def go_add_def wrap64_def fmt_d_3 hello_json_def)

lemma hello_faults:
  \<open>open_fault hello_env name = None\<close> \<open>write_fault hello_env name = None\<close>
  by (simp_all add: hello_env_def stub_env_def)

theorem append_one_line_witness:
  \<open>file_bytes (snd (SaveNewCard hello_env stub_world (stub_app two_cards) ''Hello'')) ''flashcards.jsonl''
     = ''{"id":1}'' @ nl @ ''{"id":2}'' @ nl @ hello_json @ nl
   \<and> file_lines (file_bytes (snd (SaveNewCard hello_env stub_world (stub_app two_cards) ''Hello''))
        ''flashcards.jsonl'') = [''{"id":1}'', ''{"id":2}'', hello_json]\<close>
proof -
  have f: \<open>FlashcardsFile (stub_app two_cards) = ''flashcards.jsonl''\<close>
    by (simp add: stub_app_def)
  have b: \<open>file_bytes stub_world ''flashcards.jsonl'' = ''{"id":1}'' @ nl @ ''{"id":2}'' @ nl\<close>
    by (simp add: file_bytes_def stub_world_def)
  have l: \<open>file_lines (''{"id":1}'' @ nl @ ''{"id":2}'' @ nl) = [''{"id":1}'', ''{"id":2}'']\<close>
    \<open>incomplete_line (''{"id":1}'' @ nl @ ''{"id":2}'' @ nl) = []\<close>
    by (simp_all add: file_lines_def incomplete_line_def nl_def)
  have n: \<open>CHR 0x0A \<notin> set hello_json\<close>
    by (simp add: hello_json_def ni_hao_def ni_hao_pinyin_def)
  let ?w = \<open>snd (SaveNewCard hello_env stub_world (stub_app two_cards) ''Hello'')\<close>
  note inst = append_one_line [OF hello_Translate hello_faults(1) hello_Marshal hello_faults(2) n,
      of stub_world, unfolded f b l]
  from inst have \<open>file_bytes ?w ''flashcards.jsonl'' = ''{"id":1}'' @ nl @ ''{"id":2}'' @ nl @ hello_json @ nl\<close>
    by simp
  moreover from inst have \<open>file_lines (file_bytes ?w ''flashcards.jsonl'')
      = [''{"id":1}'', ''{"id":2}''] @ [[] @ hello_json]\<close>
    by blast
  ultimately show ?thesis by simp
qed







section \<open>Failures of the append\<close>

lemma os_OpenFile_bytes:
  \<open>open_fault env name = None \<Longrightarrow>
   \<exists>w'. os_OpenFile env w name = Inr w' \<and> file_bytes w' name = file_bytes w name\<close>
  by (auto simp: os_OpenFile_def file_bytes_def split: option.splits)

lemma file_Write_fails:
  \<open>write_fault env name = Some (n, err) \<Longrightarrow>
   \<exists>w'. file_Write env w name (line @ nl) = (w', Some err)
     \<and> file_bytes w' name = file_bytes w name @ take (min n (length line)) line\<close>
  by (auto simp: file_Write_def file_bytes_def nl_def)

text \<open>
  C10.  \<open>SaveNewCard\<close> appends the new card to the deck before it opens the file.  When
  the translation succeeds and then the open, the encoding or the write fails, the
  application is stopped with the new card in its deck, and the card is not in the file:
  the file is untouched (open), has its bytes of before (encoding), or has gained only
  some first bytes of the line, never the whole line (write).
\<close>

theorem append_failure_diverges:
  assumes \<open>Translate env (AI a) englishText = Inr (zh, pinyin)\<close>
  shows \<open>(\<forall>err. open_fault env (FlashcardsFile a) = Some err \<longrightarrow>
            SaveNewCard env w a englishText =
              (Inr (a\<lparr>Deck := Deck a @ [new_card a englishText zh pinyin], Stopped := True\<rparr>),
               w\<lparr>Stdout := Stdout w @ ''Error opening flashcards file: '' @ err @ nl\<rparr>))
       \<and> (\<forall>err. open_fault env (FlashcardsFile a) = None
              \<and> json_Marshal_card env (new_card a englishText zh pinyin) = Inl err \<longrightarrow>
            fst (SaveNewCard env w a englishText) =
              Inr (a\<lparr>Deck := Deck a @ [new_card a englishText zh pinyin], Stopped := True\<rparr>)
            \<and> file_bytes (snd (SaveNewCard env w a englishText)) (FlashcardsFile a)
                = file_bytes w (FlashcardsFile a))
       \<and> (\<forall>cardJSON n err. open_fault env (FlashcardsFile a) = None
              \<and> json_Marshal_card env (new_card a englishText zh pinyin) = Inr cardJSON
              \<and> write_fault env (FlashcardsFile a) = Some (n, err) \<longrightarrow>
            fst (SaveNewCard env w a englishText) =
              Inr (a\<lparr>Deck := Deck a @ [new_card a englishText zh pinyin], Stopped := True\<rparr>)
            \<and> file_bytes (snd (SaveNewCard env w a englishText)) (FlashcardsFile a)
                = file_bytes w (FlashcardsFile a) @ take (min n (length cardJSON)) cardJSON
            \<and> file_bytes (snd (SaveNewCard env w a englishText)) (FlashcardsFile a)
                \<noteq> file_bytes w (FlashcardsFile a) @ cardJSON @ nl)\<close>
proof (intro conjI allI impI)
  fix err
  assume \<open>open_fault env (FlashcardsFile a) = Some err\<close>
  with assms show \<open>SaveNewCard env w a englishText =
      (Inr (a\<lparr>Deck := Deck a @ [new_card a englishText zh pinyin], Stopped := True\<rparr>),
       w\<lparr>Stdout := Stdout w @ ''Error opening flashcards file: '' @ err @ nl\<rparr>)\<close>
    by (simp add: SaveNewCard_def Let_def os_OpenFile_def new_card_def Println_def)
next
  fix err
  assume h: \<open>open_fault env (FlashcardsFile a) = None
      \<and> json_Marshal_card env (new_card a englishText zh pinyin) = Inl err\<close>
  from os_OpenFile_bytes [of env \<open>FlashcardsFile a\<close> w] h obtain w1
    where w1: \<open>os_OpenFile env w (FlashcardsFile a) = Inr w1\<close>
      \<open>file_bytes w1 (FlashcardsFile a) = file_bytes w (FlashcardsFile a)\<close>
    by auto
  have r: \<open>SaveNewCard env w a englishText =
      (Inr (a\<lparr>Deck := Deck a @ [new_card a englishText zh pinyin], Stopped := True\<rparr>),
       Println w1 ''Error marshaling new card:'' err)\<close>
    using assms h w1(1) by (simp add: SaveNewCard_def Let_def new_card_def)
  show \<open>fst (SaveNewCard env w a englishText) =
      Inr (a\<lparr>Deck := Deck a @ [new_card a englishText zh pinyin], Stopped := True\<rparr>)\<close>
    by (simp add: r)
  show \<open>file_bytes (snd (SaveNewCard env w a englishText)) (FlashcardsFile a)
      = file_bytes w (FlashcardsFile a)\<close>
    using w1(2) by (simp add: r Println_def file_bytes_def)
next
  fix cardJSON n err
  assume h: \<open>open_fault env (FlashcardsFile a) = None
      \<and> json_Marshal_card env (new_card a englishText zh pinyin) = Inr cardJSON
      \<and> write_fault env (FlashcardsFile a) = Some (n, err)\<close>
  from os_OpenFile_bytes [of env \<open>FlashcardsFile a\<close> w] h obtain w1
    where w1: \<open>os_OpenFile env w (FlashcardsFile a) = Inr w1\<close>
      \<open>file_bytes w1 (FlashcardsFile a) = file_bytes w (FlashcardsFile a)\<close>
    by auto
  from file_Write_fails [of env \<open>FlashcardsFile a\<close> n err w1 cardJSON] h obtain w2
    where w2: \<open>file_Write env w1 (FlashcardsFile a) (cardJSON @ nl) = (w2, Some err)\<close>
      \<open>file_bytes w2 (FlashcardsFile a)
        = file_bytes w1 (FlashcardsFile a) @ take (min n (length cardJSON)) cardJSON\<close>
    by auto
  have r: \<open>SaveNewCard env w a englishText =
      (Inr (a\<lparr>Deck := Deck a @ [new_card a englishText zh pinyin], Stopped := True\<rparr>),
       Println w2 ''Error writing new card to file:'' err)\<close>
    using assms h w1(1) w2(1) by (simp add: SaveNewCard_def Let_def new_card_def)
  show \<open>fst (SaveNewCard env w a englishText) =
      Inr (a\<lparr>Deck := Deck a @ [new_card a englishText zh pinyin], Stopped := True\<rparr>)\<close>
    by (simp add: r)
  show b: \<open>file_bytes (snd (SaveNewCard env w a englishText)) (FlashcardsFile a)
      = file_bytes w (FlashcardsFile a) @ take (min n (length cardJSON)) cardJSON\<close>
    using w1(2) w2(2) by (simp add: r Println_def file_bytes_def)
  have \<open>length (take (min n (length cardJSON)) cardJSON) < length (cardJSON @ nl)\<close>
    by (simp add: nl_def)
  then have \<open>take (min n (length cardJSON)) cardJSON \<noteq> cardJSON @ nl\<close>
    by (metis less_irrefl)
  then show \<open>file_bytes (snd (SaveNewCard env w a englishText)) (FlashcardsFile a)
      \<noteq> file_bytes w (FlashcardsFile a) @ cardJSON @ nl\<close>
    by (simp add: b)
qed


lemma failing_Translate:
  \<open>Translate open_fails_env ai s = Inr (ni_hao, ni_hao_pinyin)\<close>
  \<open>Translate marshal_fails_env ai s = Inr (ni_hao, ni_hao_pinyin)\<close>
  \<open>Translate write_fails_env ai s = Inr (ni_hao, ni_hao_pinyin)\<close>
  by (simp_all add: Translate_after_reply service_reply_def open_fails_env_def marshal_fails_env_def
      write_fails_env_def hello_env_def stub_env_def one_choice_def ni_hao_def ni_hao_pinyin_def)

lemma hello_new_card:
  \<open>new_card (stub_app two_cards) ''Hello'' ni_hao ni_hao_pinyin = hello_card\<close>
  by (simp add: new_card_def hello_card_def stub_app_def two_cards_def len_def go_add_def wrap64_def)

theorem append_failure_diverges_witness:
  \<open>SaveNewCard open_fails_env stub_world (stub_app two_cards) ''Hello''
     = (Inr ((stub_app two_cards)\<lparr>Deck := two_cards @ [hello_card], Stopped := True\<rparr>),
        stub_world\<lparr>Stdout := ''Error opening flashcards file: permission denied'' @ nl\<rparr>)
   \<and> fst (SaveNewCard marshal_fails_env stub_world (stub_app two_cards) ''Hello'')
       = Inr ((stub_app two_cards)\<lparr>Deck := two_cards @ [hello_card], Stopped := True\<rparr>)
   \<and> file_bytes (snd (SaveNewCard marshal_fails_env stub_world (stub_app two_cards) ''Hello''))
        ''flashcards.jsonl'' = ''{"id":1}'' @ nl @ ''{"id":2}'' @ nl
   \<and> fst (SaveNewCard write_fails_env stub_world (stub_app two_cards) ''Hello'')
       = Inr ((stub_app two_cards)\<lparr>Deck := two_cards @ [hello_card], Stopped := True\<rparr>)
   \<and> file_bytes (snd (SaveNewCard write_fails_env stub_world (stub_app two_cards) ''Hello''))
        ''flashcards.jsonl'' = ''{"id":1}'' @ nl @ ''{"id":2}'' @ nl @ ''{"id"''\<close>
proof -
  have f: \<open>FlashcardsFile (stub_app two_cards) = ''flashcards.jsonl''\<close>
    \<open>Deck (stub_app two_cards) = two_cards\<close>
    by (simp_all add: stub_app_def)
  have b: \<open>file_bytes stub_world ''flashcards.jsonl'' = ''{"id":1}'' @ nl @ ''{"id":2}'' @ nl\<close>
    \<open>Stdout stub_world = []\<close>
    by (simp_all add: file_bytes_def stub_world_def)
  have e: \<open>open_fault open_fails_env ''flashcards.jsonl'' = Some ''permission denied''\<close>
    \<open>open_fault marshal_fails_env ''flashcards.jsonl'' = None\<close>
    \<open>json_Marshal_card marshal_fails_env hello_card = Inl ''unsupported value''\<close>
    \<open>open_fault write_fails_env ''flashcards.jsonl'' = None\<close>
    \<open>json_Marshal_card write_fails_env hello_card = Inr hello_json\<close>
    \<open>write_fault write_fails_env ''flashcards.jsonl'' = Some (5, ''no space left on device'')\<close>
    by (simp_all add: open_fails_env_def marshal_fails_env_def write_fails_env_def hello_env_def
        stub_env_def stub_Marshal_card_def hello_card_def hello_json_def fmt_d_3)
  have t: \<open>take (min 5 (length hello_json)) hello_json = ''{"id"''\<close>
    by (simp add: hello_json_def)
  note one = append_failure_diverges [where env = open_fails_env and a = \<open>stub_app two_cards\<close>
      and englishText = \<open>''Hello''\<close> and w = stub_world, OF failing_Translate(1),
      unfolded f hello_new_card b]
  note two = append_failure_diverges [where env = marshal_fails_env and a = \<open>stub_app two_cards\<close>
      and englishText = \<open>''Hello''\<close> and w = stub_world, OF failing_Translate(2),
      unfolded f hello_new_card b]
  note three = append_failure_diverges [where env = write_fails_env and a = \<open>stub_app two_cards\<close>
      and englishText = \<open>''Hello''\<close> and w = stub_world, OF failing_Translate(3),
      unfolded f hello_new_card b]
  from one e(1) have \<open>SaveNewCard open_fails_env stub_world (stub_app two_cards) ''Hello''
     = (Inr ((stub_app two_cards)\<lparr>Deck := two_cards @ [hello_card], Stopped := True\<rparr>),
        stub_world\<lparr>Stdout := ''Error opening flashcards file: permission denied'' @ nl\<rparr>)\<close>
    by simp
  moreover from two e(2,3) have
    \<open>fst (SaveNewCard marshal_fails_env stub_world (stub_app two_cards) ''Hello'')
       = Inr ((stub_app two_cards)\<lparr>Deck := two_cards @ [hello_card], Stopped := True\<rparr>)
     \<and> file_bytes (snd (SaveNewCard marshal_fails_env stub_world (stub_app two_cards) ''Hello''))
        ''flashcards.jsonl'' = ''{"id":1}'' @ nl @ ''{"id":2}'' @ nl\<close>
    by blast
  moreover from three e(4,5,6) have
    \<open>fst (SaveNewCard write_fails_env stub_world (stub_app two_cards) ''Hello'')
       = Inr ((stub_app two_cards)\<lparr>Deck := two_cards @ [hello_card], Stopped := True\<rparr>)
     \<and> file_bytes (snd (SaveNewCard write_fails_env stub_world (stub_app two_cards) ''Hello''))
        ''flashcards.jsonl''
       = (''{"id":1}'' @ nl @ ''{"id":2}'' @ nl) @ take (min 5 (length hello_json)) hello_json\<close>
    by blast
  ultimately show ?thesis
    by (simp add: t)
qed

section \<open>Loading the deck\<close>
















end
